theory Spec2Isabelle
  imports Main
begin

section \<open>Values, dictionaries and requests\<close>

text \<open>
  The values that travel between the manager, the client and the helpers: what Python
  builds from JSON, and what a caller puts into a parameter dictionary. A dictionary is
  an association list in insertion order; \<open>map_of\<close> reads a key.
\<close>

datatype pyval =
    PNone
  | PBool bool
  | PInt int
  | PStr string
  | PList "pyval list"
  | PDict "(string \<times> pyval) list"

type_synonym pydict = "(string \<times> pyval) list"

text \<open>
  \<open>d[k] = v\<close> on a Python dictionary: an existing key keeps its place and takes the
  new value, a new key goes to the end. \<open>d.update(u)\<close> stores the items of \<open>u\<close> from
  left to right.
\<close>

fun dict_set :: "string \<Rightarrow> pyval \<Rightarrow> pydict \<Rightarrow> pydict" where
  "dict_set k v [] = [(k, v)]"
| "dict_set k v (p # ps) = (if fst p = k then (k, v) # ps else p # dict_set k v ps)"

fun dict_update :: "pydict \<Rightarrow> pydict \<Rightarrow> pydict" where
  "dict_update d [] = d"
| "dict_update d (p # ps) = dict_update (dict_set (fst p) (snd p) d) ps"

text \<open>
  The errors of the external client and of the helpers, as the specification lists them.
  The manager raises none of its own.
\<close>

datatype error =
    NetworkFailure
  | AuthenticationFailure
  | MalformedResponse
  | ResourceNotFound
  | OtherError string

text \<open>
  A resource identifier is a string or a number. The manager only formats it into the
  path with \<open>'/vms/%s' % _id\<close>, which is \<open>str(_id)\<close>: a string as it is, an integer in
  decimal.
\<close>

datatype ident = IdStr string | IdInt int

fun digits_of :: "nat \<Rightarrow> string" where
  "digits_of n =
     (if n < 10 then [''0123456789'' ! n]
      else digits_of (n div 10) @ [''0123456789'' ! (n mod 10)])"

declare digits_of.simps [simp del]

definition str_int :: "int \<Rightarrow> string" where
  "str_int i = (if i < 0 then CHR ''-'' # digits_of (nat (- i)) else digits_of (nat i))"

fun fmt_s :: "ident \<Rightarrow> string" where
  "fmt_s (IdStr s) = s"
| "fmt_s (IdInt i) = str_int i"

text \<open>
  One invocation \<open>client.call(method, path, params=..., data=...)\<close>. A keyword argument
  the manager does not pass is \<open>None\<close> here.
\<close>

record request =
  rq_method :: string
  rq_path :: string
  rq_params :: "pydict option"
  rq_data :: "pydict option"

section \<open>The collaborators\<close>

text \<open>
  The API client is external. Its \<open>call\<close> takes a request and the state of everything
  outside the manager (the network, the remote system, the client's own session), and
  gives back the raw response or the error it raises, with the new outside state.
\<close>

type_synonym 'w Client = "request \<Rightarrow> 'w \<Rightarrow> (error + pyval) \<times> 'w"

text \<open>
  The three helpers imported from \<open>Cloudforms.utils\<close>. The operations below take them
  as a parameter: each is a function of its arguments that returns a value or raises.
\<close>

record utils =
  update_params :: "pydict option \<Rightarrow> pydict \<Rightarrow> error + pydict"
  normalize_object :: "pyval \<Rightarrow> error + pydict"
  normalize_collection :: "pyval \<Rightarrow> error + pydict list"

section \<open>VSManager\<close>

text \<open>The class has one attribute, set by \<open>__init__\<close>.\<close>

record 'w VSManager =
  client :: "'w Client"

definition init :: "'w Client \<Rightarrow> 'w VSManager" where
  "init c = \<lparr>client = c\<rparr>"

text \<open>
  What a method call leaves behind: the value it returns or the error it raises, the
  requests it handed to the client in order, the manager object after the call, and the
  outside state after the call.
\<close>

record ('a, 'w) outcome =
  result :: "error + 'a"
  calls :: "request list"
  self :: "'w VSManager"
  world :: 'w

text \<open>
  \<open>get\<close>: the parameters are merged first; an error there leaves before any request. The
  request goes out next, and the raw response is normalised last.
\<close>

definition get ::
  "utils \<Rightarrow> 'w VSManager \<Rightarrow> ident \<Rightarrow> pydict option \<Rightarrow> 'w \<Rightarrow> (pydict, 'w) outcome" where
  "get U mgr vid params w =
     (case update_params U params [(''expand'', PStr ''resources'')] of
        Inl e \<Rightarrow> \<lparr>result = Inl e, calls = [], self = mgr, world = w\<rparr>
      | Inr params' \<Rightarrow>
          (let rq = \<lparr>rq_method = ''get'', rq_path = ''/vms/'' @ fmt_s vid,
                     rq_params = Some params', rq_data = None\<rparr>;
               r = client mgr rq w
           in \<lparr>result = (case fst r of Inl e \<Rightarrow> Inl e | Inr raw \<Rightarrow> normalize_object U raw),
               calls = [rq], self = mgr, world = snd r\<rparr>))"

definition list_vs ::
  "utils \<Rightarrow> 'w VSManager \<Rightarrow> pydict option \<Rightarrow> 'w \<Rightarrow> (pydict list, 'w) outcome" where
  "list_vs U mgr params w =
     (case update_params U params [(''expand'', PStr ''resources'')] of
        Inl e \<Rightarrow> \<lparr>result = Inl e, calls = [], self = mgr, world = w\<rparr>
      | Inr params' \<Rightarrow>
          (let rq = \<lparr>rq_method = ''get'', rq_path = ''/vms'',
                     rq_params = Some params', rq_data = None\<rparr>;
               r = client mgr rq w
           in \<lparr>result = (case fst r of Inl e \<Rightarrow> Inl e | Inr raw \<Rightarrow> normalize_collection U raw),
               calls = [rq], self = mgr, world = snd r\<rparr>))"

definition perform_action ::
  "utils \<Rightarrow> 'w VSManager \<Rightarrow> ident \<Rightarrow> string \<Rightarrow> pydict option \<Rightarrow> 'w \<Rightarrow> (pydict, 'w) outcome" where
  "perform_action U mgr vid action params w =
     (case update_params U params [(''action'', PStr action)] of
        Inl e \<Rightarrow> \<lparr>result = Inl e, calls = [], self = mgr, world = w\<rparr>
      | Inr params' \<Rightarrow>
          (let rq = \<lparr>rq_method = ''post'', rq_path = ''/vms/'' @ fmt_s vid,
                     rq_params = None, rq_data = Some params'\<rparr>;
               r = client mgr rq w
           in \<lparr>result = (case fst r of Inl e \<Rightarrow> Inl e | Inr raw \<Rightarrow> normalize_object U raw),
               calls = [rq], self = mgr, world = snd r\<rparr>))"

definition start ::
  "utils \<Rightarrow> 'w VSManager \<Rightarrow> ident \<Rightarrow> pydict option \<Rightarrow> 'w \<Rightarrow> (pydict, 'w) outcome" where
  "start U mgr vid params w = perform_action U mgr vid ''start'' params w"

definition stop ::
  "utils \<Rightarrow> 'w VSManager \<Rightarrow> ident \<Rightarrow> pydict option \<Rightarrow> 'w \<Rightarrow> (pydict, 'w) outcome" where
  "stop U mgr vid params w = perform_action U mgr vid ''stop'' params w"

definition suspend ::
  "utils \<Rightarrow> 'w VSManager \<Rightarrow> ident \<Rightarrow> pydict option \<Rightarrow> 'w \<Rightarrow> (pydict, 'w) outcome" where
  "suspend U mgr vid params w = perform_action U mgr vid ''suspend'' params w"

definition delete ::
  "utils \<Rightarrow> 'w VSManager \<Rightarrow> ident \<Rightarrow> pydict option \<Rightarrow> 'w \<Rightarrow> (pydict, 'w) outcome" where
  "delete U mgr vid params w = perform_action U mgr vid ''delete'' params w"

section \<open>The helpers, from the specification\<close>

text \<open>
  Modelled from the spec: \<open>update_params\<close> of \<open>Cloudforms.utils\<close>, which is not among
  the sources. The specification gives it as a pure function from the caller's
  parameters and the enforced defaults to the merged mapping, a shallow merge in which
  the enforced defaults win on a key collision. The parameters are optional; without
  them the request carries the defaults alone.
\<close>

definition update_params_spec :: "pydict option \<Rightarrow> pydict \<Rightarrow> error + pydict" where
  "update_params_spec params defaults =
     Inr (dict_update (case params of None \<Rightarrow> [] | Some p \<Rightarrow> p) defaults)"

text \<open>
  Modelled from the spec: \<open>normalize_object\<close> of \<open>Cloudforms.utils\<close>, which is not among
  the sources. The specification says that it unwraps one envelope level: resource data
  nested under the wrapper key \<open>resources\<close> comes out as the inner mapping. What it does
  with a response of any other shape is not said; that part is the parameter \<open>other\<close>.
\<close>

definition normalize_object_spec :: "(pyval \<Rightarrow> error + pydict) \<Rightarrow> pyval \<Rightarrow> error + pydict" where
  "normalize_object_spec other raw =
     (case raw of
        PDict env \<Rightarrow>
          (case map_of env ''resources'' of
             Some (PDict inner) \<Rightarrow> Inr inner
           | _ \<Rightarrow> other raw)
      | _ \<Rightarrow> other raw)"

text \<open>
  Running a helper over the elements of a list from left to right; the first error
  leaves, as the exception would.
\<close>

fun collect :: "('a \<Rightarrow> error + 'b) \<Rightarrow> 'a list \<Rightarrow> error + 'b list" where
  "collect f [] = Inr []"
| "collect f (x # xs) =
     (case f x of
        Inl e \<Rightarrow> Inl e
      | Inr y \<Rightarrow> (case collect f xs of Inl e \<Rightarrow> Inl e | Inr ys \<Rightarrow> Inr (y # ys)))"

text \<open>
  Modelled from the spec: \<open>normalize_collection\<close> of \<open>Cloudforms.utils\<close>, which is not
  among the sources. The specification says that the collection response is an array or
  a wrapped array of resource objects, and that the result is the ordered sequence got
  by applying the unwrapping of \<open>normalize_object\<close> to each element. A response of any
  other shape is left to the parameter \<open>other_col\<close>.
\<close>

definition normalize_collection_spec ::
  "(pyval \<Rightarrow> error + pydict) \<Rightarrow> (pyval \<Rightarrow> error + pydict list) \<Rightarrow> pyval \<Rightarrow> error + pydict list" where
  "normalize_collection_spec other other_col raw =
     (case raw of
        PList xs \<Rightarrow> collect (normalize_object_spec other) xs
      | PDict env \<Rightarrow>
          (case map_of env ''resources'' of
             Some (PList xs) \<Rightarrow> collect (normalize_object_spec other) xs
           | _ \<Rightarrow> other_col raw)
      | _ \<Rightarrow> other_col raw)"

definition spec_utils ::
  "(pyval \<Rightarrow> error + pydict) \<Rightarrow> (pyval \<Rightarrow> error + pydict list) \<Rightarrow> utils" where
  "spec_utils other other_col =
     \<lparr>update_params = update_params_spec,
      normalize_object = normalize_object_spec other,
      normalize_collection = normalize_collection_spec other other_col\<rparr>"

section \<open>Concrete collaborators for the examples\<close>

text \<open>
  A client that answers every request with the same response, one that fails every
  request with the same error, and the mocked client of the end-to-end example of the
  specification. The outside state counts the requests received.
\<close>

definition const_client :: "pyval \<Rightarrow> nat Client" where
  "const_client resp rq n = (Inr resp, Suc n)"

definition failing_client :: "error \<Rightarrow> nat Client" where
  "failing_client e rq n = (Inl e, Suc n)"

definition vm42 :: pydict where
  "vm42 = [(''id'', PStr ''42''), (''power_state'', PStr ''on'')]"

definition mock_client :: "nat Client" where
  "mock_client rq n =
     (if rq = \<lparr>rq_method = ''get'', rq_path = ''/vms/42'',
               rq_params = Some [(''expand'', PStr ''resources'')], rq_data = None\<rparr>
      then (Inr (PDict [(''resources'', PDict vm42)]), Suc n)
      else (Inl ResourceNotFound, Suc n))"

definition reject :: "pyval \<Rightarrow> error + 'a" where
  "reject raw = Inl MalformedResponse"

definition vm_list_response :: pyval where
  "vm_list_response =
     PDict [(''name'', PStr ''vms''),
            (''resources'',
               PList [PDict [(''resources'', PDict [(''id'', PStr ''2'')])],
                      PDict [(''resources'', PDict [(''id'', PStr ''1'')])],
                      PDict [(''resources'', PDict [(''id'', PStr ''3'')])]])]"

definition vm_list_response2 :: pyval where
  "vm_list_response2 =
     PDict [(''resources'',
               PList [PDict [(''resources'', PDict [(''id'', PStr ''9'')])],
                      PDict [(''resources'', PDict [(''id'', PStr ''4'')])]])]"

text \<open>
  Helpers with fixed answers, to exercise each way an operation can fail: the merge
  gives \<open>merged\<close>, and the normalisation gives \<open>normalized\<close>, whatever they are handed.
\<close>

definition stub_utils :: "error + pydict \<Rightarrow> error + pydict \<Rightarrow> utils" where
  "stub_utils merged normalized =
     \<lparr>update_params = (\<lambda>params defaults. merged),
      normalize_object = (\<lambda>raw. normalized),
      normalize_collection = (\<lambda>raw. case normalized of Inl e \<Rightarrow> Inl e | Inr d \<Rightarrow> Inr [d])\<rparr>"

section \<open>Properties of an outcome\<close>

text \<open>
  An outcome propagates the collaborators' errors when: an error of the merge is the
  result, with no request sent; otherwise exactly one request was sent, an error of the
  client on that request is the result, and a response of the client is handed to the
  normalisation \<open>finish\<close>, whose value or error is the result.
\<close>

definition propagates ::
  "error + pydict \<Rightarrow> 'w Client \<Rightarrow> 'w \<Rightarrow> (pyval \<Rightarrow> error + 'a) \<Rightarrow> ('a, 'w) outcome \<Rightarrow> bool" where
  "propagates merged c w finish out \<longleftrightarrow>
     (\<forall>e. merged = Inl e \<longrightarrow> result out = Inl e \<and> calls out = [])
     \<and> (\<forall>m. merged = Inr m \<longrightarrow>
           (\<exists>rq. calls out = [rq]
              \<and> (\<forall>e. fst (c rq w) = Inl e \<longrightarrow> result out = Inl e)
              \<and> (\<forall>raw. fst (c rq w) = Inr raw \<longrightarrow> result out = finish raw)))"

text \<open>
  An outcome of a call on the manager built from client \<open>c\<close> in outside state \<open>w\<close>
  respects the frame when the manager is the one that was built, still holding \<open>c\<close>, and
  the outside state is either untouched, with no request sent, or what the client made of
  it on the one request sent.
\<close>

definition frame :: "'w Client \<Rightarrow> 'w \<Rightarrow> ('a, 'w) outcome \<Rightarrow> bool" where
  "frame c w out \<longleftrightarrow>
     self out = init c
     \<and> client (self out) = c
     \<and> (calls out = [] \<and> world out = w
        \<or> (\<exists>rq. calls out = [rq] \<and> world out = snd (c rq w)))"

section \<open>Dictionary lemmas\<close>

lemma map_of_dict_set: "map_of (dict_set k v d) = (map_of d)(k \<mapsto> v)"
  by (induction d) (auto simp: fun_eq_iff)

lemma keys_dict_set: "fst ` set (dict_set k v d) = insert k (fst ` set d)"
  by (induction d) auto

text \<open>
  Merging: a key of the second dictionary takes the value of the second, every other key
  keeps the value of the first. Where the second is a list of pairs that repeats a key,
  the last pair counts, hence the \<open>rev\<close>; a dictionary repeats none.
\<close>

lemma map_of_dict_update: "map_of (dict_update d u) = map_of d ++ map_of (rev u)"
proof (induction u arbitrary: d)
  case Nil
  show ?case by simp
next
  case (Cons p ps)
  have "map_of (dict_update d (p # ps)) = map_of (dict_set (fst p) (snd p) d) ++ map_of (rev ps)"
    using Cons.IH by simp
  also have "\<dots> = (map_of d ++ map_of [p]) ++ map_of (rev ps)"
    by (cases p) (simp add: map_of_dict_set)
  also have "\<dots> = map_of d ++ map_of (rev (p # ps))"
    by simp
  finally show ?case .
qed

lemma map_of_rev_distinct: "distinct (map fst xs) \<Longrightarrow> map_of (rev xs) = map_of xs"
proof (induction xs)
  case Nil
  show ?case by simp
next
  case (Cons x xs)
  then have "map_of xs (fst x) = None"
    by (simp add: map_of_eq_None_iff)
  with Cons show ?case
    by (cases x) (auto simp: fun_eq_iff map_add_def split: option.splits)
qed

section \<open>Lemmas on the helpers and the operations\<close>

lemma collect_list_all2:
  "list_all2 (\<lambda>x y. f x = Inr y) xs ys \<Longrightarrow> collect f xs = Inr ys"
  by (induction xs ys rule: list_all2_induct) auto

lemma normalize_collection_spec_wrapped:
  "map_of env ''resources'' = Some (PList xs)
   \<Longrightarrow> normalize_collection_spec other other_col (PDict env)
       = collect (normalize_object_spec other) xs"
  by (simp add: normalize_collection_spec_def)

lemma list_vs_result:
  "calls (list_vs U mgr params w) = [rq] \<Longrightarrow> fst (client mgr rq w) = Inr raw
   \<Longrightarrow> result (list_vs U mgr params w) = normalize_collection U raw"
  by (auto simp: list_vs_def Let_def split: sum.splits)

lemma propagates_get:
  "propagates (update_params U params [(''expand'', PStr ''resources'')]) (client mgr) w
     (normalize_object U) (get U mgr vid params w)"
  by (cases "update_params U params [(''expand'', PStr ''resources'')]")
     (simp_all add: propagates_def get_def Let_def)

lemma propagates_list_vs:
  "propagates (update_params U params [(''expand'', PStr ''resources'')]) (client mgr) w
     (normalize_collection U) (list_vs U mgr params w)"
  by (cases "update_params U params [(''expand'', PStr ''resources'')]")
     (simp_all add: propagates_def list_vs_def Let_def)

lemma propagates_perform_action:
  "propagates (update_params U params [(''action'', PStr action)]) (client mgr) w
     (normalize_object U) (perform_action U mgr vid action params w)"
  by (cases "update_params U params [(''action'', PStr action)]")
     (simp_all add: propagates_def perform_action_def Let_def)

lemma frame_get: "frame c w (get U (init c) vid params w)"
  by (cases "update_params U params [(''expand'', PStr ''resources'')]")
     (simp_all add: frame_def get_def init_def Let_def)

lemma frame_list_vs: "frame c w (list_vs U (init c) params w)"
  by (cases "update_params U params [(''expand'', PStr ''resources'')]")
     (simp_all add: frame_def list_vs_def init_def Let_def)

lemma frame_perform_action: "frame c w (perform_action U (init c) vid action params w)"
  by (cases "update_params U params [(''action'', PStr action)]")
     (simp_all add: frame_def perform_action_def init_def Let_def)

section \<open>The parameter merge\<close>

text \<open>
  C1. The merge lets the method's enforced defaults win on a key collision. Whatever
  the caller's parameters hold, a key of the defaults has the default's value in the
  merged mapping; the body that \<open>perform_action\<close> posts has \<open>action\<close> set to the method's
  action, which the caller cannot override, and the query of \<open>get\<close> and of \<open>list\<close> has
  \<open>expand\<close> set to \<open>resources\<close>.
\<close>

theorem enforced_defaults_win:
  "(distinct (map fst defaults) \<and> map_of defaults k = Some v \<longrightarrow>
      (\<exists>m. update_params_spec params defaults = Inr m \<and> map_of m k = Some v))
   \<and> (\<exists>m. calls (perform_action (spec_utils other other_col) mgr vid action params w)
            = [\<lparr>rq_method = ''post'', rq_path = ''/vms/'' @ fmt_s vid,
                rq_params = None, rq_data = Some m\<rparr>]
          \<and> map_of m ''action'' = Some (PStr action))
   \<and> (\<exists>m. calls (get (spec_utils other other_col) mgr vid params w)
            = [\<lparr>rq_method = ''get'', rq_path = ''/vms/'' @ fmt_s vid,
                rq_params = Some m, rq_data = None\<rparr>]
          \<and> map_of m ''expand'' = Some (PStr ''resources''))
   \<and> (\<exists>m. calls (list_vs (spec_utils other other_col) mgr params w)
            = [\<lparr>rq_method = ''get'', rq_path = ''/vms'',
                rq_params = Some m, rq_data = None\<rparr>]
          \<and> map_of m ''expand'' = Some (PStr ''resources''))"
proof -
  have merge: "map_of m k = Some v"
    if "distinct (map fst defaults)" "map_of defaults k = Some v"
       "update_params_spec params defaults = Inr m" for m
  proof -
    from that(1) have "map_of (rev defaults) = map_of defaults"
      by (rule map_of_rev_distinct)
    with that(2,3) show ?thesis
      by (auto simp: update_params_spec_def map_of_dict_update map_add_def)
  qed
  have general: "distinct (map fst defaults) \<and> map_of defaults k = Some v \<longrightarrow>
      (\<exists>m. update_params_spec params defaults = Inr m \<and> map_of m k = Some v)"
    using merge by (auto simp: update_params_spec_def)
  show ?thesis
    using general by (simp add: perform_action_def get_def list_vs_def spec_utils_def
        update_params_spec_def map_of_dict_set Let_def)
qed

text \<open>
  The caller asks \<open>start\<close> to post \<open>action = stop\<close>: the body says \<open>start\<close>, and the
  caller's other key is kept.
\<close>

theorem enforced_defaults_win_witness:
  "calls (perform_action (spec_utils reject reject) (init (const_client PNone)) (IdStr ''7'')
            ''start'' (Some [(''action'', PStr ''stop''), (''force'', PBool True)]) 0)
     = [\<lparr>rq_method = ''post'', rq_path = ''/vms/7'', rq_params = None,
         rq_data = Some [(''action'', PStr ''start''), (''force'', PBool True)]\<rparr>]
   \<and> distinct (map fst [(''action'', PStr ''start'')])
   \<and> update_params_spec (Some [(''action'', PStr ''stop'')]) [(''action'', PStr ''start'')]
       = Inr [(''action'', PStr ''start'')]"
  using enforced_defaults_win [of "[(''action'', PStr ''start'')]" "''action''" "PStr ''start''"
      "Some [(''action'', PStr ''stop''), (''force'', PBool True)]" reject reject
      "init (const_client PNone)" "IdStr ''7''" "''start''" 0]
  by (simp add: perform_action_def spec_utils_def update_params_spec_def init_def
      const_client_def Let_def)

section \<open>The convenience methods\<close>

text \<open>
  C2. For every identifier and every optional parameter mapping, \<open>start\<close>, \<open>stop\<close>,
  \<open>suspend\<close> and \<open>delete\<close> are \<open>perform_action\<close> with the action name \<open>start\<close>, \<open>stop\<close>,
  \<open>suspend\<close> and \<open>delete\<close>: the same requests reach the client, and the same result, manager
  and outside state come back. This holds for any client and any helpers.
\<close>

theorem convenience_methods_are_perform_action:
  "start U mgr vid params w = perform_action U mgr vid ''start'' params w
   \<and> stop U mgr vid params w = perform_action U mgr vid ''stop'' params w
   \<and> suspend U mgr vid params w = perform_action U mgr vid ''suspend'' params w
   \<and> delete U mgr vid params w = perform_action U mgr vid ''delete'' params w"
  by (simp add: start_def stop_def suspend_def delete_def)

text \<open>On a client that answers, \<open>stop\<close> posts one body with \<open>action = stop\<close>.\<close>

theorem convenience_methods_are_perform_action_witness:
  "calls (stop (stub_utils (Inr [(''action'', PStr ''stop'')]) (Inr []))
            (init (const_client PNone)) (IdStr ''42'') None 0)
     = [\<lparr>rq_method = ''post'', rq_path = ''/vms/42'', rq_params = None,
         rq_data = Some [(''action'', PStr ''stop'')]\<rparr>]"
  using convenience_methods_are_perform_action
      [of "stub_utils (Inr [(''action'', PStr ''stop'')]) (Inr [])"
          "init (const_client PNone)" "IdStr ''42''" None 0]
  by (simp add: perform_action_def stub_utils_def Let_def)

section \<open>The requests\<close>

text \<open>
  C3. For every identifier and every optional parameter mapping, \<open>get\<close> hands the client
  exactly one request: method \<open>get\<close>, path \<open>/vms/\<close> followed by the identifier, no body,
  and query parameters in which \<open>expand\<close> is \<open>resources\<close>, whatever else the caller
  supplied.
\<close>

theorem get_emits_one_expanded_get:
  "\<exists>m. calls (get (spec_utils other other_col) mgr vid params w)
          = [\<lparr>rq_method = ''get'', rq_path = ''/vms/'' @ fmt_s vid,
              rq_params = Some m, rq_data = None\<rparr>]
        \<and> map_of m ''expand'' = Some (PStr ''resources'')"
  by (simp add: get_def spec_utils_def update_params_spec_def map_of_dict_set Let_def)

text \<open>A numeric identifier, and a caller who asks for another expansion.\<close>

theorem get_emits_one_expanded_get_witness:
  "calls (get (spec_utils reject reject) (init mock_client) (IdInt 42)
            (Some [(''attributes'', PStr ''id''), (''expand'', PStr ''none'')]) 0)
     = [\<lparr>rq_method = ''get'', rq_path = ''/vms/42'',
         rq_params = Some [(''attributes'', PStr ''id''), (''expand'', PStr ''resources'')],
         rq_data = None\<rparr>]"
  using get_emits_one_expanded_get [of reject reject "init mock_client" "IdInt 42"
      "Some [(''attributes'', PStr ''id''), (''expand'', PStr ''none'')]" 0]
  by (simp add: get_def spec_utils_def update_params_spec_def Let_def str_int_def
      digits_of.simps)

text \<open>
  C4. For every identifier, \<open>perform_action\<close> with action \<open>start\<close> hands the client exactly
  one request: method \<open>post\<close>, path \<open>/vms/\<close> followed by the identifier, and the merged
  parameters as the body, where \<open>action\<close> is \<open>start\<close>; no query parameters are passed.
  Without caller parameters the body is that one entry.
\<close>

theorem perform_action_start_posts_body:
  "(\<exists>m. calls (perform_action (spec_utils other other_col) mgr vid ''start'' params w)
          = [\<lparr>rq_method = ''post'', rq_path = ''/vms/'' @ fmt_s vid,
              rq_params = None, rq_data = Some m\<rparr>]
        \<and> map_of m ''action'' = Some (PStr ''start''))
   \<and> calls (perform_action (spec_utils other other_col) mgr vid ''start'' None w)
        = [\<lparr>rq_method = ''post'', rq_path = ''/vms/'' @ fmt_s vid,
            rq_params = None, rq_data = Some [(''action'', PStr ''start'')]\<rparr>]"
  by (simp add: perform_action_def spec_utils_def update_params_spec_def map_of_dict_set
      Let_def)

text \<open>The counting client has received one request afterwards.\<close>

theorem perform_action_start_posts_body_witness:
  "calls (perform_action (spec_utils reject reject) (init (const_client PNone))
            (IdStr ''42'') ''start'' None 0)
     = [\<lparr>rq_method = ''post'', rq_path = ''/vms/42'', rq_params = None,
         rq_data = Some [(''action'', PStr ''start'')]\<rparr>]
   \<and> world (perform_action (spec_utils reject reject) (init (const_client PNone))
            (IdStr ''42'') ''start'' None 0) = 1"
  using perform_action_start_posts_body [of reject reject "init (const_client PNone)"
      "IdStr ''42''" None 0]
  by (simp add: perform_action_def spec_utils_def update_params_spec_def init_def
      const_client_def Let_def)

text \<open>
  C5. For every parameter mapping passed to \<open>list\<close>, the one request is a \<open>get\<close> of
  \<open>/vms\<close> whose query parameters have \<open>expand\<close> set to \<open>resources\<close>; every key of the
  caller is a key of the merged mapping, and every key other than \<open>expand\<close> has the
  caller's value there.
\<close>

theorem list_keeps_caller_keys:
  "\<exists>m. calls (list_vs (spec_utils other other_col) mgr params w)
          = [\<lparr>rq_method = ''get'', rq_path = ''/vms'', rq_params = Some m, rq_data = None\<rparr>]
        \<and> map_of m ''expand'' = Some (PStr ''resources'')
        \<and> (\<forall>p. params = Some p \<longrightarrow>
              fst ` set p \<subseteq> fst ` set m
              \<and> (\<forall>k. k \<noteq> ''expand'' \<longrightarrow> map_of m k = map_of p k))"
  by (auto simp: list_vs_def spec_utils_def update_params_spec_def map_of_dict_set
      keys_dict_set Let_def)

text \<open>Two caller keys stay in place; the default is appended.\<close>

theorem list_keeps_caller_keys_witness:
  "calls (list_vs (spec_utils reject reject) (init (const_client (PList [])))
            (Some [(''attributes'', PStr ''id''), (''limit'', PInt 5)]) 0)
     = [\<lparr>rq_method = ''get'', rq_path = ''/vms'',
         rq_params = Some [(''attributes'', PStr ''id''), (''limit'', PInt 5),
                           (''expand'', PStr ''resources'')],
         rq_data = None\<rparr>]"
  using list_keeps_caller_keys [of reject reject "init (const_client (PList []))"
      "Some [(''attributes'', PStr ''id''), (''limit'', PInt 5)]" 0]
  by (simp add: list_vs_def spec_utils_def update_params_spec_def Let_def)

section \<open>The results\<close>



text \<open>
  C7. \<open>list\<close> hands the client one request, a \<open>get\<close> of \<open>/vms\<close> with the merged
  parameters. When the client answers that request with an envelope-wrapped array, and the
  elements of the array unwrap to the mappings \<open>ys\<close>, one for one, \<open>list\<close> returns
  exactly \<open>ys\<close>: as many mappings as the array has elements, the one at each position
  being the unwrapping of the element at that position.
\<close>

theorem list_preserves_order:
  "calls (list_vs (spec_utils other other_col) mgr params w)
     = [\<lparr>rq_method = ''get'', rq_path = ''/vms'',
         rq_params = Some (dict_update (case params of None \<Rightarrow> [] | Some p \<Rightarrow> p)
                             [(''expand'', PStr ''resources'')]),
         rq_data = None\<rparr>]
   \<and> (fst (client mgr
              \<lparr>rq_method = ''get'', rq_path = ''/vms'',
               rq_params = Some (dict_update (case params of None \<Rightarrow> [] | Some p \<Rightarrow> p)
                                   [(''expand'', PStr ''resources'')]),
               rq_data = None\<rparr> w) = Inr (PDict env)
        \<and> map_of env ''resources'' = Some (PList xs)
        \<and> list_all2 (\<lambda>x y. normalize_object_spec other x = Inr y) xs ys
      \<longrightarrow> result (list_vs (spec_utils other other_col) mgr params w) = Inr ys
          \<and> length ys = length xs
          \<and> (\<forall>i < length xs. normalize_object_spec other (xs ! i) = Inr (ys ! i)))"
proof -
  let ?rq = "\<lparr>rq_method = ''get'', rq_path = ''/vms'',
               rq_params = Some (dict_update (case params of None \<Rightarrow> [] | Some p \<Rightarrow> p)
                                   [(''expand'', PStr ''resources'')]),
               rq_data = None\<rparr>"
  have sent: "calls (list_vs (spec_utils other other_col) mgr params w) = [?rq]"
    by (simp add: list_vs_def spec_utils_def update_params_spec_def Let_def)
  have ordered: "result (list_vs (spec_utils other other_col) mgr params w) = Inr ys
       \<and> length ys = length xs
       \<and> (\<forall>i < length xs. normalize_object_spec other (xs ! i) = Inr (ys ! i))"
    if answered: "fst (client mgr ?rq w) = Inr (PDict env)
        \<and> map_of env ''resources'' = Some (PList xs)
        \<and> list_all2 (\<lambda>x y. normalize_object_spec other x = Inr y) xs ys"
  proof -
    from answered have resp: "fst (client mgr ?rq w) = Inr (PDict env)"
      and env: "map_of env ''resources'' = Some (PList xs)"
      and each: "list_all2 (\<lambda>x y. normalize_object_spec other x = Inr y) xs ys"
      by blast+
    have "result (list_vs (spec_utils other other_col) mgr params w)
            = normalize_collection_spec other other_col (PDict env)"
      using list_vs_result [OF sent resp] by (simp add: spec_utils_def)
    also have "\<dots> = collect (normalize_object_spec other) xs"
      using env by (rule normalize_collection_spec_wrapped)
    also have "\<dots> = Inr ys"
      using each by (rule collect_list_all2)
    finally have res: "result (list_vs (spec_utils other other_col) mgr params w) = Inr ys" .
    have len: "length ys = length xs"
      using each by (simp add: list_all2_lengthD)
    have nth: "\<forall>i < length xs. normalize_object_spec other (xs ! i) = Inr (ys ! i)"
      using list_all2_nthD [OF each] by blast
    from res len nth show ?thesis
      by blast
  qed
  from sent ordered show ?thesis
    by blast
qed

text \<open>
  Three wrapped elements with identifiers 2, 1, 3 come back in that order, after the one
  request; another response, to a call with a caller parameter, gives 9, 4.
\<close>

theorem list_preserves_order_witness:
  "result (list_vs (spec_utils reject reject) (init (const_client vm_list_response)) None 0)
     = Inr [[(''id'', PStr ''2'')], [(''id'', PStr ''1'')], [(''id'', PStr ''3'')]]
   \<and> calls (list_vs (spec_utils reject reject) (init (const_client vm_list_response)) None 0)
     = [\<lparr>rq_method = ''get'', rq_path = ''/vms'',
         rq_params = Some [(''expand'', PStr ''resources'')], rq_data = None\<rparr>]
   \<and> world (list_vs (spec_utils reject reject) (init (const_client vm_list_response)) None 0)
     = 1
   \<and> result (list_vs (spec_utils reject reject) (init (const_client vm_list_response2))
               (Some [(''limit'', PInt 2)]) 0)
     = Inr [[(''id'', PStr ''9'')], [(''id'', PStr ''4'')]]
   \<and> calls (list_vs (spec_utils reject reject) (init (const_client vm_list_response2))
               (Some [(''limit'', PInt 2)]) 0)
     = [\<lparr>rq_method = ''get'', rq_path = ''/vms'',
         rq_params = Some [(''limit'', PInt 2), (''expand'', PStr ''resources'')],
         rq_data = None\<rparr>]"
  using list_preserves_order [of reject reject "init (const_client vm_list_response)" None 0
      "[(''name'', PStr ''vms''),
        (''resources'',
               PList [PDict [(''resources'', PDict [(''id'', PStr ''2'')])],
                      PDict [(''resources'', PDict [(''id'', PStr ''1'')])],
                      PDict [(''resources'', PDict [(''id'', PStr ''3'')])]])]"
      "[PDict [(''resources'', PDict [(''id'', PStr ''2'')])],
                      PDict [(''resources'', PDict [(''id'', PStr ''1'')])],
                      PDict [(''resources'', PDict [(''id'', PStr ''3'')])]]"
      "[[(''id'', PStr ''2'')], [(''id'', PStr ''1'')], [(''id'', PStr ''3'')]]"]
  by (simp add: list_vs_def spec_utils_def update_params_spec_def init_def const_client_def
      vm_list_response_def vm_list_response2_def normalize_object_spec_def
      normalize_collection_spec_def Let_def)

section \<open>Errors and state\<close>

text \<open>
  C8. Every operation propagates the errors of its collaborators unchanged, for any
  client and any helpers: an error of the parameter merge, of the client call or of the
  normalisation is the error of the operation. A failed client call is not repeated: one
  request was sent. The operation adds no check of its own on the identifier or the
  action name: whenever the client answers, the result is what the normalisation makes
  of the answer.
\<close>

theorem errors_propagate_unchanged:
  "propagates (update_params U params [(''expand'', PStr ''resources'')]) (client mgr) w
     (normalize_object U) (get U mgr vid params w)
   \<and> propagates (update_params U params [(''expand'', PStr ''resources'')]) (client mgr) w
     (normalize_collection U) (list_vs U mgr params w)
   \<and> propagates (update_params U params [(''action'', PStr action)]) (client mgr) w
     (normalize_object U) (perform_action U mgr vid action params w)
   \<and> propagates (update_params U params [(''action'', PStr ''start'')]) (client mgr) w
     (normalize_object U) (start U mgr vid params w)
   \<and> propagates (update_params U params [(''action'', PStr ''stop'')]) (client mgr) w
     (normalize_object U) (stop U mgr vid params w)
   \<and> propagates (update_params U params [(''action'', PStr ''suspend'')]) (client mgr) w
     (normalize_object U) (suspend U mgr vid params w)
   \<and> propagates (update_params U params [(''action'', PStr ''delete'')]) (client mgr) w
     (normalize_object U) (delete U mgr vid params w)"
  by (simp add: propagates_get propagates_list_vs propagates_perform_action
      start_def stop_def suspend_def delete_def)

text \<open>
  A failing merge, a failing client, a failing normalisation, and an empty identifier
  with an unknown action name that pass through when nothing fails.
\<close>

theorem errors_propagate_unchanged_witness:
  "result (get (stub_utils (Inl (OtherError ''params'')) (Inr [])) (init (const_client PNone))
             (IdStr ''42'') None 0) = Inl (OtherError ''params'')
   \<and> calls (get (stub_utils (Inl (OtherError ''params'')) (Inr [])) (init (const_client PNone))
             (IdStr ''42'') None 0) = []
   \<and> result (delete (stub_utils (Inr []) (Inr [])) (init (failing_client NetworkFailure))
             (IdStr ''42'') None 0) = Inl NetworkFailure
   \<and> length (calls (delete (stub_utils (Inr []) (Inr [])) (init (failing_client NetworkFailure))
             (IdStr ''42'') None 0)) = 1
   \<and> result (list_vs (stub_utils (Inr []) (Inl MalformedResponse)) (init (const_client PNone))
             None 0) = Inl MalformedResponse
   \<and> result (perform_action (stub_utils (Inr []) (Inr [])) (init (const_client PNone))
             (IdStr []) ''no such action'' None 0) = Inr []"
  using errors_propagate_unchanged [of "stub_utils (Inl (OtherError ''params'')) (Inr [])" None
      "init (const_client PNone)" 0 "IdStr ''42''" "''start''"]
  by (simp add: propagates_def get_def list_vs_def perform_action_def delete_def
      stub_utils_def init_def const_client_def failing_client_def Let_def)

text \<open>
  C9. The manager is stateless. Its only attribute is the client given to the
  constructor; after every operation, on every input, the manager is the one that was
  constructed and holds that client, and the outside state is what the one delegated
  client call made of it (or is untouched, when the merge failed before any call).
\<close>

theorem manager_is_stateless:
  "frame c w (get U (init c) vid params w)
   \<and> frame c w (list_vs U (init c) params w)
   \<and> frame c w (perform_action U (init c) vid action params w)
   \<and> frame c w (start U (init c) vid params w)
   \<and> frame c w (stop U (init c) vid params w)
   \<and> frame c w (suspend U (init c) vid params w)
   \<and> frame c w (delete U (init c) vid params w)"
  by (simp add: frame_get frame_list_vs frame_perform_action
      start_def stop_def suspend_def delete_def)

text \<open>After a call with five requests behind it, the counting client has seen six.\<close>

theorem manager_is_stateless_witness:
  "self (get (stub_utils (Inr []) (Inr [])) (init (const_client PNone)) (IdStr ''42'') None 5)
     = init (const_client PNone)
   \<and> world (get (stub_utils (Inr []) (Inr [])) (init (const_client PNone)) (IdStr ''42'') None 5)
     = 6"
  using manager_is_stateless [of "const_client PNone" 5 "stub_utils (Inr []) (Inr [])"
      "IdStr ''42''" None "''start''"]
  by (simp add: frame_def get_def stub_utils_def init_def const_client_def Let_def)

section \<open>Omitted parameters\<close>

text \<open>
  C10. Leaving the optional parameters out is the same as passing an empty mapping, for
  \<open>get\<close>, \<open>list\<close> and \<open>perform_action\<close>: the whole outcome is the same, and the request
  carries the enforced default alone, \<open>expand = resources\<close> for the reads and the action
  for \<open>perform_action\<close>.
\<close>

theorem omitted_params_is_empty_mapping:
  "get (spec_utils other other_col) mgr vid None w
     = get (spec_utils other other_col) mgr vid (Some []) w
   \<and> list_vs (spec_utils other other_col) mgr None w
     = list_vs (spec_utils other other_col) mgr (Some []) w
   \<and> perform_action (spec_utils other other_col) mgr vid action None w
     = perform_action (spec_utils other other_col) mgr vid action (Some []) w
   \<and> calls (get (spec_utils other other_col) mgr vid None w)
     = [\<lparr>rq_method = ''get'', rq_path = ''/vms/'' @ fmt_s vid,
         rq_params = Some [(''expand'', PStr ''resources'')], rq_data = None\<rparr>]
   \<and> calls (list_vs (spec_utils other other_col) mgr None w)
     = [\<lparr>rq_method = ''get'', rq_path = ''/vms'',
         rq_params = Some [(''expand'', PStr ''resources'')], rq_data = None\<rparr>]
   \<and> calls (perform_action (spec_utils other other_col) mgr vid action None w)
     = [\<lparr>rq_method = ''post'', rq_path = ''/vms/'' @ fmt_s vid,
         rq_params = None, rq_data = Some [(''action'', PStr action)]\<rparr>]"
  by (simp add: get_def list_vs_def perform_action_def spec_utils_def update_params_spec_def
      Let_def)

text \<open>The mocked client answers the empty mapping as it answers no mapping.\<close>

theorem omitted_params_is_empty_mapping_witness:
  "result (get (spec_utils reject reject) (init mock_client) (IdStr ''42'') (Some []) 0)
     = Inr vm42"
  using omitted_params_is_empty_mapping [of reject reject "init mock_client" "IdStr ''42''" 0
      "''start''"]
  by (simp add: get_def spec_utils_def update_params_spec_def init_def mock_client_def
      normalize_object_spec_def Let_def)

end
